theory Spec2Isabelle
  imports Main "HOL-Library.Word"
begin

section \<open>The global executor interface (GlobalExecutor.cpp)\<close>

text \<open>
  The translation unit defines four enqueue entry points, the main-executor setter, and
  the two queries \<open>swift_task_getMainExecutor\<close> and \<open>ExecutorRef::isMainExecutor\<close>.
  None of its functions writes a variable: each one reads file-scope globals and its
  arguments and calls functions defined elsewhere (the tracing sink, the thread-sanitizer
  annotation, the installed hook, the backend's \<open>...Impl\<close> functions, \<open>fprintf\<close>).
  A function is therefore modelled by the sequence of calls it makes, oldest first, each
  with its callee and its argument list, as a function of the globals it reads. An entry
  point reads its hook slot once the tracing call has returned; the state \<open>g\<close> it is given
  is the state it reads there. The four entry points are also given as transformers of an
  explicit memory, to state what they do to the contents of a Job.
\<close>

subsection \<open>Values\<close>

text \<open>Pointers (\<open>Job *\<close>, \<open>HeapObject *\<close>, function pointers) are addresses; 0 is the null pointer.\<close>

type_synonym addr = nat

abbreviation (input) nullptr :: addr where
  "nullptr \<equiv> 0"

text \<open>
  The functions this file calls by name. \<open>tsan_release\<close> is \<open>_swift_tsan_release\<close>, and the
  three \<open>job_enqueue_...\<close> functions are those of \<open>concurrency::trace\<close>.
\<close>

datatype fn =
    tsan_release
  | job_enqueue_global
  | job_enqueue_global_with_delay
  | job_enqueue_main_executor
  | swift_task_enqueueGlobalImpl
  | swift_task_enqueueGlobalWithDelayImpl
  | swift_task_enqueueGlobalWithDeadlineImpl
  | swift_task_enqueueMainExecutorImpl
  | swift_concurrency_setMainActorExecutorImpl
  | fprintf

text \<open>
  Modelled from the spec: the type \<open>JobDelay\<close> is declared in a header that is not among
  the sources. Section 3 describes the delay as "a relative duration (scalar,
  implementation-defined unit)"; it is taken as an unsigned 64-bit scalar. The entry points
  only pass it on.
\<close>

type_synonym JobDelay = "64 word"

text \<open>
  An argument of a call: a pointer, a \<open>JobDelay\<close>, a \<open>long long\<close>, an \<open>int\<close>, the address
  of a named function (the \<open>original\<close> handed to a hook), a string literal, or the stream
  \<open>stderr\<close>.
\<close>

datatype arg =
    Ptr addr
  | Delay JobDelay
  | LL "64 word"
  | CInt "32 word"
  | FnPtr fn
  | CStr string
  | Stderr

text \<open>A call is made to a named function, or through the function pointer read from a hook slot.\<close>

datatype callee = Direct fn | Through addr

type_synonym call = "callee \<times> arg list"

subsection \<open>File-scope state (lines 73-102)\<close>

text \<open>
  The four hook slots and the two override cells. The slot for
  \<open>swift_concurrency_setMainActorExecutor\<close> is commented out in the source (lines 95-99), so
  the state has none.
\<close>

record globals =
  swift_task_enqueueGlobal_hook :: addr
  swift_task_enqueueGlobalWithDelay_hook :: addr
  swift_task_enqueueGlobalWithDeadline_hook :: addr
  swift_task_enqueueMainExecutor_hook :: addr
  mainExecutorIdentityOverride :: addr
  mainExecutorImplementationOverride :: nat

text \<open>
  The state at process start: every hook slot has the initializer \<open>= nullptr\<close>; the two
  atomics have static storage duration and no initializer, so they start zeroed.
\<close>

definition process_start :: globals where
  "process_start =
     \<lparr> swift_task_enqueueGlobal_hook = nullptr,
       swift_task_enqueueGlobalWithDelay_hook = nullptr,
       swift_task_enqueueGlobalWithDeadline_hook = nullptr,
       swift_task_enqueueMainExecutor_hook = nullptr,
       mainExecutorIdentityOverride = nullptr,
       mainExecutorImplementationOverride = 0 \<rparr>"

subsection \<open>The enqueue entry points (lines 112-153)\<close>

definition swift_task_enqueueGlobal :: "globals \<Rightarrow> addr \<Rightarrow> call list" where
  "swift_task_enqueueGlobal g job =
     [(Direct tsan_release, [Ptr job]),
      (Direct job_enqueue_global, [Ptr job])] @
     (if swift_task_enqueueGlobal_hook g \<noteq> nullptr
      then [(Through (swift_task_enqueueGlobal_hook g),
             [Ptr job, FnPtr swift_task_enqueueGlobalImpl])]
      else [(Direct swift_task_enqueueGlobalImpl, [Ptr job])])"

definition swift_task_enqueueGlobalWithDelay :: "globals \<Rightarrow> JobDelay \<Rightarrow> addr \<Rightarrow> call list" where
  "swift_task_enqueueGlobalWithDelay g delay job =
     [(Direct job_enqueue_global_with_delay, [Delay delay, Ptr job])] @
     (if swift_task_enqueueGlobalWithDelay_hook g \<noteq> nullptr
      then [(Through (swift_task_enqueueGlobalWithDelay_hook g),
             [Delay delay, Ptr job, FnPtr swift_task_enqueueGlobalWithDelayImpl])]
      else [(Direct swift_task_enqueueGlobalWithDelayImpl, [Delay delay, Ptr job])])"

definition swift_task_enqueueGlobalWithDeadline ::
  "globals \<Rightarrow> 64 word \<Rightarrow> 64 word \<Rightarrow> 64 word \<Rightarrow> 64 word \<Rightarrow> 32 word \<Rightarrow> addr \<Rightarrow> call list" where
  "swift_task_enqueueGlobalWithDeadline g sec nsec tsec tnsec clock job =
     (if swift_task_enqueueGlobalWithDeadline_hook g \<noteq> nullptr
      then [(Through (swift_task_enqueueGlobalWithDeadline_hook g),
             [LL sec, LL nsec, LL tsec, LL tnsec, CInt clock, Ptr job,
              FnPtr swift_task_enqueueGlobalWithDeadlineImpl])]
      else [(Direct swift_task_enqueueGlobalWithDeadlineImpl,
             [LL sec, LL nsec, LL tsec, LL tnsec, CInt clock, Ptr job])])"

definition swift_task_enqueueMainExecutor :: "globals \<Rightarrow> addr \<Rightarrow> call list" where
  "swift_task_enqueueMainExecutor g job =
     [(Direct job_enqueue_main_executor, [Ptr job])] @
     (if swift_task_enqueueMainExecutor_hook g \<noteq> nullptr
      then [(Through (swift_task_enqueueMainExecutor_hook g),
             [Ptr job, FnPtr swift_task_enqueueMainExecutorImpl])]
      else [(Direct swift_task_enqueueMainExecutorImpl, [Ptr job])])"

subsection \<open>The entry points with the memory made explicit\<close>

text \<open>
  The same four functions (lines 112-153) as state transformers. A state is the memory,
  which holds the contents of the Jobs by address, and the calls made so far. What a
  function defined elsewhere does to the memory when it is called is the parameter \<open>ext\<close>;
  \<open>perform\<close> is one call. The bodies have no statement but calls, so the entry points
  themselves neither read nor write the memory.
\<close>

type_synonym 'j memory = "addr \<Rightarrow> 'j"

definition perform ::
  "(call \<Rightarrow> 'j memory \<Rightarrow> 'j memory) \<Rightarrow> call \<Rightarrow> 'j memory \<times> call list \<Rightarrow> 'j memory \<times> call list" where
  "perform ext c s = (ext c (fst s), snd s @ [c])"

definition swift_task_enqueueGlobal_run ::
  "(call \<Rightarrow> 'j memory \<Rightarrow> 'j memory) \<Rightarrow> globals \<Rightarrow> addr \<Rightarrow>
     'j memory \<times> call list \<Rightarrow> 'j memory \<times> call list" where
  "swift_task_enqueueGlobal_run ext g job s =
     (let s1 = perform ext (Direct tsan_release, [Ptr job]) s;
          s2 = perform ext (Direct job_enqueue_global, [Ptr job]) s1
      in if swift_task_enqueueGlobal_hook g \<noteq> nullptr
         then perform ext (Through (swift_task_enqueueGlobal_hook g),
                [Ptr job, FnPtr swift_task_enqueueGlobalImpl]) s2
         else perform ext (Direct swift_task_enqueueGlobalImpl, [Ptr job]) s2)"

definition swift_task_enqueueGlobalWithDelay_run ::
  "(call \<Rightarrow> 'j memory \<Rightarrow> 'j memory) \<Rightarrow> globals \<Rightarrow> JobDelay \<Rightarrow> addr \<Rightarrow>
     'j memory \<times> call list \<Rightarrow> 'j memory \<times> call list" where
  "swift_task_enqueueGlobalWithDelay_run ext g delay job s =
     (let s1 = perform ext (Direct job_enqueue_global_with_delay, [Delay delay, Ptr job]) s
      in if swift_task_enqueueGlobalWithDelay_hook g \<noteq> nullptr
         then perform ext (Through (swift_task_enqueueGlobalWithDelay_hook g),
                [Delay delay, Ptr job, FnPtr swift_task_enqueueGlobalWithDelayImpl]) s1
         else perform ext (Direct swift_task_enqueueGlobalWithDelayImpl,
                [Delay delay, Ptr job]) s1)"

definition swift_task_enqueueGlobalWithDeadline_run ::
  "(call \<Rightarrow> 'j memory \<Rightarrow> 'j memory) \<Rightarrow> globals \<Rightarrow>
     64 word \<Rightarrow> 64 word \<Rightarrow> 64 word \<Rightarrow> 64 word \<Rightarrow> 32 word \<Rightarrow> addr \<Rightarrow>
     'j memory \<times> call list \<Rightarrow> 'j memory \<times> call list" where
  "swift_task_enqueueGlobalWithDeadline_run ext g sec nsec tsec tnsec clock job s =
     (if swift_task_enqueueGlobalWithDeadline_hook g \<noteq> nullptr
      then perform ext (Through (swift_task_enqueueGlobalWithDeadline_hook g),
             [LL sec, LL nsec, LL tsec, LL tnsec, CInt clock, Ptr job,
              FnPtr swift_task_enqueueGlobalWithDeadlineImpl]) s
      else perform ext (Direct swift_task_enqueueGlobalWithDeadlineImpl,
             [LL sec, LL nsec, LL tsec, LL tnsec, CInt clock, Ptr job]) s)"

definition swift_task_enqueueMainExecutor_run ::
  "(call \<Rightarrow> 'j memory \<Rightarrow> 'j memory) \<Rightarrow> globals \<Rightarrow> addr \<Rightarrow>
     'j memory \<times> call list \<Rightarrow> 'j memory \<times> call list" where
  "swift_task_enqueueMainExecutor_run ext g job s =
     (let s1 = perform ext (Direct job_enqueue_main_executor, [Ptr job]) s
      in if swift_task_enqueueMainExecutor_hook g \<noteq> nullptr
         then perform ext (Through (swift_task_enqueueMainExecutor_hook g),
                [Ptr job, FnPtr swift_task_enqueueMainExecutorImpl]) s1
         else perform ext (Direct swift_task_enqueueMainExecutorImpl, [Ptr job]) s1)"

subsection \<open>The main executor (lines 159-185)\<close>

text \<open>
  \<open>swift_concurrency_setMainActorExecutor\<close> prints one line to \<open>stderr\<close> (the format string
  with \<open>__FILE_NAME__\<close>, \<open>__LINE__\<close> = 163 and \<open>__FUNCTION__\<close>) and then calls the backend's
  implementation. It reads no global.
\<close>

definition swift_concurrency_setMainActorExecutor :: "addr \<Rightarrow> addr \<Rightarrow> addr \<Rightarrow> call list" where
  "swift_concurrency_setMainActorExecutor executor selfType wtable =
     [(Direct fprintf,
       [Stderr, CStr (''[%s:%d](%s) hello'' @ [CHR 0x0A]), CStr ''GlobalExecutor.cpp'',
        CInt 163, CStr ''swift_concurrency_setMainActorExecutor'']),
      (Direct swift_concurrency_setMainActorExecutorImpl,
       [Ptr executor, Ptr selfType, Ptr wtable])]"

text \<open>
  An executor reference has the member \<open>Identity\<close> that line 183 compares; the second
  component is the capability table (a \<open>uintptr_t\<close>, as the implementation override cell).
\<close>

record ExecutorRef =
  Identity :: addr
  Implementation :: nat

text \<open>
  Modelled from the spec: \<open>ExecutorRef::forOrdinary\<close> is declared in a header that is not
  among the sources. Section 4.1: an executor reference is "constructible from an identity
  handle and a capability table"; section 3: it is the pair of the two.
\<close>

definition forOrdinary :: "addr \<Rightarrow> addr \<Rightarrow> ExecutorRef" where
  "forOrdinary identity witnessTable =
     \<lparr> Identity = identity, Implementation = witnessTable \<rparr>"

text \<open>
  What the two functions below use and this file does not define is a parameter:
  \<open>ExecutorRef::generic()\<close> and \<open>ExecutorRef::isGeneric()\<close> of the same header, the address
  of \<open>_dispatch_main_q\<close>, and the value of
  \<open>_swift_task_getDispatchQueueSerialExecutorWitnessTable()\<close>.
\<close>

record externs =
  generic :: ExecutorRef
  isGeneric :: "ExecutorRef \<Rightarrow> bool"
  dispatch_main_q :: addr
  DispatchQueueSerialExecutorWitnessTable :: addr

text \<open>
  The two preprocessor macros the file tests. The first only selects the backend's include
  file (lines 104-110); the getter and the query test the second.
\<close>

record build =
  SWIFT_CONCURRENCY_COOPERATIVE_GLOBAL_EXECUTOR :: bool
  SWIFT_CONCURRENCY_ENABLE_DISPATCH :: bool

definition swift_task_getMainExecutor :: "build \<Rightarrow> externs \<Rightarrow> ExecutorRef" where
  "swift_task_getMainExecutor cfg ex =
     (if \<not> SWIFT_CONCURRENCY_ENABLE_DISPATCH cfg
      then generic ex
      else forOrdinary (dispatch_main_q ex) (DispatchQueueSerialExecutorWitnessTable ex))"

definition isMainExecutor :: "build \<Rightarrow> externs \<Rightarrow> ExecutorRef \<Rightarrow> bool" where
  "isMainExecutor cfg ex r =
     (if \<not> SWIFT_CONCURRENCY_ENABLE_DISPATCH cfg
      then isGeneric ex r
      else Identity r = dispatch_main_q ex)"


text \<open>
  Modelled from the spec: \<open>swift_concurrency_setMainActorExecutorImpl\<close> is defined in the
  backend's include file, which is not among the sources. Section 4.3 names the backend
  operation \<open>setMainExecutorOverride(identity, capabilities)\<close>, and section 4.4 says that it
  "atomically installs a new identity and capability pair" in the identity cell and the
  implementation cell.
\<close>

definition setMainExecutorOverride :: "addr \<Rightarrow> nat \<Rightarrow> globals \<Rightarrow> globals" where
  "setMainExecutorOverride identity capabilities g =
     g \<lparr> mainExecutorIdentityOverride := identity,
         mainExecutorImplementationOverride := capabilities \<rparr>"

subsection \<open>Reading a call sequence\<close>

text \<open>The calls made through a function pointer, that is, the hook invocations.\<close>

fun is_through :: "call \<Rightarrow> bool" where
  "is_through (Through h, args) = True"
| "is_through (Direct f, args) = False"

definition hook_calls :: "call list \<Rightarrow> call list" where
  "hook_calls cs = filter is_through cs"

text \<open>The direct calls to one of the four default implementations.\<close>

fun is_default_impl :: "call \<Rightarrow> bool" where
  "is_default_impl (Direct swift_task_enqueueGlobalImpl, args) = True"
| "is_default_impl (Direct swift_task_enqueueGlobalWithDelayImpl, args) = True"
| "is_default_impl (Direct swift_task_enqueueGlobalWithDeadlineImpl, args) = True"
| "is_default_impl (Direct swift_task_enqueueMainExecutorImpl, args) = True"
| "is_default_impl c = False"

definition impl_calls :: "call list \<Rightarrow> call list" where
  "impl_calls cs = filter is_default_impl cs"

text \<open>The trace events: the direct calls to the tracing sink.\<close>

fun is_trace :: "call \<Rightarrow> bool" where
  "is_trace (Direct job_enqueue_global, args) = True"
| "is_trace (Direct job_enqueue_global_with_delay, args) = True"
| "is_trace (Direct job_enqueue_main_executor, args) = True"
| "is_trace c = False"

definition trace_events :: "call list \<Rightarrow> call list" where
  "trace_events cs = filter is_trace cs"

text \<open>The direct calls to one named function.\<close>

definition calls_to :: "fn \<Rightarrow> call list \<Rightarrow> call list" where
  "calls_to f cs = filter (\<lambda>c. fst c = Direct f) cs"

text \<open>The pointers among the arguments of a call.\<close>

fun ptr_args :: "arg list \<Rightarrow> addr list" where
  "ptr_args [] = []"
| "ptr_args (Ptr p # as) = p # ptr_args as"
| "ptr_args (a # as) = ptr_args as"

text \<open>The writes to \<open>stderr\<close>.\<close>

fun is_stderr_write :: "call \<Rightarrow> bool" where
  "is_stderr_write (Direct fprintf, Stderr # args) = True"
| "is_stderr_write c = False"

text \<open>The routed calls: those through a hook and those to a default implementation.\<close>

definition routed_calls :: "call list \<Rightarrow> call list" where
  "routed_calls cs = filter (\<lambda>c. is_through c \<or> is_default_impl c) cs"

subsection \<open>Concrete states and parameters\<close>

text \<open>
  A state in which the immediate and the deadline slot hold a hook (at 4096 and 8192) and
  the other two slots are clear, as after installing two hooks from the start state.
\<close>

definition two_hooks :: globals where
  "two_hooks = process_start
     \<lparr> swift_task_enqueueGlobal_hook := 4096,
       swift_task_enqueueGlobalWithDeadline_hook := 8192 \<rparr>"

text \<open>
  An instance of the parameters, to evaluate the two queries: the generic reference has the
  null identity and no capability table, \<open>isGeneric\<close> tests the identity against null, the
  dispatch main queue is at 4096 and its witness table at 8192.
\<close>

definition sample_externs :: externs where
  "sample_externs =
     \<lparr> generic = \<lparr> Identity = nullptr, Implementation = 0 \<rparr>,
       isGeneric = (\<lambda>r. Identity r = nullptr),
       dispatch_main_q = 4096,
       DispatchQueueSerialExecutorWitnessTable = 8192 \<rparr>"

text \<open>
  An instance of \<open>ext\<close>, to run the entry points: the memory holds one number per address;
  the default implementation of the immediate enqueue adds 1 at the Job it is given, a hook
  adds 10 there, and every other callee leaves the memory as it is.
\<close>

fun sample_ext :: "call \<Rightarrow> nat memory \<Rightarrow> nat memory" where
  "sample_ext (Direct swift_task_enqueueGlobalImpl, [Ptr job]) m = m(job := m job + 1)"
| "sample_ext (Through h, Ptr job # args) m = m(job := m job + 10)"
| "sample_ext c m = m"

definition dispatch_build :: build where
  "dispatch_build =
     \<lparr> SWIFT_CONCURRENCY_COOPERATIVE_GLOBAL_EXECUTOR = False,
       SWIFT_CONCURRENCY_ENABLE_DISPATCH = True \<rparr>"

definition non_dispatch_build :: build where
  "non_dispatch_build =
     \<lparr> SWIFT_CONCURRENCY_COOPERATIVE_GLOBAL_EXECUTOR = False,
       SWIFT_CONCURRENCY_ENABLE_DISPATCH = False \<rparr>"


section \<open>Hook routing\<close>

lemma routing_enqueueGlobal:
  "hook_calls (swift_task_enqueueGlobal g job) =
     (if swift_task_enqueueGlobal_hook g \<noteq> nullptr
      then [(Through (swift_task_enqueueGlobal_hook g),
             [Ptr job, FnPtr swift_task_enqueueGlobalImpl])]
      else [])"
  "impl_calls (swift_task_enqueueGlobal g job) =
     (if swift_task_enqueueGlobal_hook g \<noteq> nullptr then []
      else [(Direct swift_task_enqueueGlobalImpl, [Ptr job])])"
  by (simp_all add: swift_task_enqueueGlobal_def hook_calls_def impl_calls_def)

lemma routing_enqueueGlobalWithDelay:
  "hook_calls (swift_task_enqueueGlobalWithDelay g delay job) =
     (if swift_task_enqueueGlobalWithDelay_hook g \<noteq> nullptr
      then [(Through (swift_task_enqueueGlobalWithDelay_hook g),
             [Delay delay, Ptr job, FnPtr swift_task_enqueueGlobalWithDelayImpl])]
      else [])"
  "impl_calls (swift_task_enqueueGlobalWithDelay g delay job) =
     (if swift_task_enqueueGlobalWithDelay_hook g \<noteq> nullptr then []
      else [(Direct swift_task_enqueueGlobalWithDelayImpl, [Delay delay, Ptr job])])"
  by (simp_all add: swift_task_enqueueGlobalWithDelay_def hook_calls_def impl_calls_def)

lemma routing_enqueueGlobalWithDeadline:
  "hook_calls (swift_task_enqueueGlobalWithDeadline g sec nsec tsec tnsec clock job) =
     (if swift_task_enqueueGlobalWithDeadline_hook g \<noteq> nullptr
      then [(Through (swift_task_enqueueGlobalWithDeadline_hook g),
             [LL sec, LL nsec, LL tsec, LL tnsec, CInt clock, Ptr job,
              FnPtr swift_task_enqueueGlobalWithDeadlineImpl])]
      else [])"
  "impl_calls (swift_task_enqueueGlobalWithDeadline g sec nsec tsec tnsec clock job) =
     (if swift_task_enqueueGlobalWithDeadline_hook g \<noteq> nullptr then []
      else [(Direct swift_task_enqueueGlobalWithDeadlineImpl,
             [LL sec, LL nsec, LL tsec, LL tnsec, CInt clock, Ptr job])])"
  by (simp_all add: swift_task_enqueueGlobalWithDeadline_def hook_calls_def impl_calls_def)

lemma routing_enqueueMainExecutor:
  "hook_calls (swift_task_enqueueMainExecutor g job) =
     (if swift_task_enqueueMainExecutor_hook g \<noteq> nullptr
      then [(Through (swift_task_enqueueMainExecutor_hook g),
             [Ptr job, FnPtr swift_task_enqueueMainExecutorImpl])]
      else [])"
  "impl_calls (swift_task_enqueueMainExecutor g job) =
     (if swift_task_enqueueMainExecutor_hook g \<noteq> nullptr then []
      else [(Direct swift_task_enqueueMainExecutorImpl, [Ptr job])])"
  by (simp_all add: swift_task_enqueueMainExecutor_def hook_calls_def impl_calls_def)

text \<open>
  Installing a hook is a write to the slot, and clearing it is the write of the null
  pointer. After a slot is cleared the entry point behaves as in the start state.
\<close>

lemma clearing_restores_default:
  "swift_task_enqueueGlobal (g\<lparr>swift_task_enqueueGlobal_hook := nullptr\<rparr>) job =
     swift_task_enqueueGlobal process_start job"
  "swift_task_enqueueGlobalWithDelay (g\<lparr>swift_task_enqueueGlobalWithDelay_hook := nullptr\<rparr>) delay job =
     swift_task_enqueueGlobalWithDelay process_start delay job"
  "swift_task_enqueueGlobalWithDeadline (g\<lparr>swift_task_enqueueGlobalWithDeadline_hook := nullptr\<rparr>)
       sec nsec tsec tnsec clock job =
     swift_task_enqueueGlobalWithDeadline process_start sec nsec tsec tnsec clock job"
  "swift_task_enqueueMainExecutor (g\<lparr>swift_task_enqueueMainExecutor_hook := nullptr\<rparr>) job =
     swift_task_enqueueMainExecutor process_start job"
  by (simp_all add: swift_task_enqueueGlobal_def swift_task_enqueueGlobalWithDelay_def
      swift_task_enqueueGlobalWithDeadline_def swift_task_enqueueMainExecutor_def process_start_def)

text \<open>
  C1. For each of the four entry points, every state of the hook slots, every Job and all
  delay or deadline arguments: when the entry point's slot is non-null the call sequence
  holds exactly one call through that slot, with the Job, the other arguments and the
  address of the entry point's default implementation as the last argument, and no direct
  call to a default implementation; when the slot is null it holds no call through a
  pointer and exactly one direct call to the entry point's default implementation, with
  the same arguments.
\<close>

theorem hook_routing:
  "(swift_task_enqueueGlobal_hook g \<noteq> nullptr \<longrightarrow>
      hook_calls (swift_task_enqueueGlobal g job) =
        [(Through (swift_task_enqueueGlobal_hook g),
          [Ptr job, FnPtr swift_task_enqueueGlobalImpl])] \<and>
      impl_calls (swift_task_enqueueGlobal g job) = []) \<and>
   (swift_task_enqueueGlobal_hook g = nullptr \<longrightarrow>
      hook_calls (swift_task_enqueueGlobal g job) = [] \<and>
      impl_calls (swift_task_enqueueGlobal g job) =
        [(Direct swift_task_enqueueGlobalImpl, [Ptr job])]) \<and>
   (swift_task_enqueueGlobalWithDelay_hook g \<noteq> nullptr \<longrightarrow>
      hook_calls (swift_task_enqueueGlobalWithDelay g delay job) =
        [(Through (swift_task_enqueueGlobalWithDelay_hook g),
          [Delay delay, Ptr job, FnPtr swift_task_enqueueGlobalWithDelayImpl])] \<and>
      impl_calls (swift_task_enqueueGlobalWithDelay g delay job) = []) \<and>
   (swift_task_enqueueGlobalWithDelay_hook g = nullptr \<longrightarrow>
      hook_calls (swift_task_enqueueGlobalWithDelay g delay job) = [] \<and>
      impl_calls (swift_task_enqueueGlobalWithDelay g delay job) =
        [(Direct swift_task_enqueueGlobalWithDelayImpl, [Delay delay, Ptr job])]) \<and>
   (swift_task_enqueueGlobalWithDeadline_hook g \<noteq> nullptr \<longrightarrow>
      hook_calls (swift_task_enqueueGlobalWithDeadline g sec nsec tsec tnsec clock job) =
        [(Through (swift_task_enqueueGlobalWithDeadline_hook g),
          [LL sec, LL nsec, LL tsec, LL tnsec, CInt clock, Ptr job,
           FnPtr swift_task_enqueueGlobalWithDeadlineImpl])] \<and>
      impl_calls (swift_task_enqueueGlobalWithDeadline g sec nsec tsec tnsec clock job) = []) \<and>
   (swift_task_enqueueGlobalWithDeadline_hook g = nullptr \<longrightarrow>
      hook_calls (swift_task_enqueueGlobalWithDeadline g sec nsec tsec tnsec clock job) = [] \<and>
      impl_calls (swift_task_enqueueGlobalWithDeadline g sec nsec tsec tnsec clock job) =
        [(Direct swift_task_enqueueGlobalWithDeadlineImpl,
          [LL sec, LL nsec, LL tsec, LL tnsec, CInt clock, Ptr job])]) \<and>
   (swift_task_enqueueMainExecutor_hook g \<noteq> nullptr \<longrightarrow>
      hook_calls (swift_task_enqueueMainExecutor g job) =
        [(Through (swift_task_enqueueMainExecutor_hook g),
          [Ptr job, FnPtr swift_task_enqueueMainExecutorImpl])] \<and>
      impl_calls (swift_task_enqueueMainExecutor g job) = []) \<and>
   (swift_task_enqueueMainExecutor_hook g = nullptr \<longrightarrow>
      hook_calls (swift_task_enqueueMainExecutor g job) = [] \<and>
      impl_calls (swift_task_enqueueMainExecutor g job) =
        [(Direct swift_task_enqueueMainExecutorImpl, [Ptr job])])"
proof -
  note global = routing_enqueueGlobal [of g job]
  note delayed = routing_enqueueGlobalWithDelay [of g delay job]
  note deadline = routing_enqueueGlobalWithDeadline [of g sec nsec tsec tnsec clock job]
  note main = routing_enqueueMainExecutor [of g job]
  show ?thesis
    by (simp only: global delayed deadline main) simp
qed

theorem hook_routing_witness:
  "swift_task_enqueueGlobal_hook two_hooks \<noteq> nullptr \<and>
   hook_calls (swift_task_enqueueGlobal two_hooks 64) =
     [(Through 4096, [Ptr 64, FnPtr swift_task_enqueueGlobalImpl])] \<and>
   impl_calls (swift_task_enqueueGlobal two_hooks 64) = [] \<and>
   swift_task_enqueueGlobalWithDelay_hook two_hooks = nullptr \<and>
   hook_calls (swift_task_enqueueGlobalWithDelay two_hooks 5 64) = [] \<and>
   impl_calls (swift_task_enqueueGlobalWithDelay two_hooks 5 64) =
     [(Direct swift_task_enqueueGlobalWithDelayImpl, [Delay 5, Ptr 64])] \<and>
   swift_task_enqueueGlobalWithDeadline_hook two_hooks \<noteq> nullptr \<and>
   hook_calls (swift_task_enqueueGlobalWithDeadline two_hooks 1 2 3 4 0 64) =
     [(Through 8192, [LL 1, LL 2, LL 3, LL 4, CInt 0, Ptr 64,
       FnPtr swift_task_enqueueGlobalWithDeadlineImpl])] \<and>
   impl_calls (swift_task_enqueueGlobalWithDeadline two_hooks 1 2 3 4 0 64) = [] \<and>
   swift_task_enqueueMainExecutor_hook two_hooks = nullptr \<and>
   hook_calls (swift_task_enqueueMainExecutor two_hooks 64) = [] \<and>
   impl_calls (swift_task_enqueueMainExecutor two_hooks 64) =
     [(Direct swift_task_enqueueMainExecutorImpl, [Ptr 64])]"
  using hook_routing [of two_hooks 64 5 1 2 3 4 0]
  by (simp add: two_hooks_def process_start_def)

section \<open>The start state\<close>

text \<open>
  C6. At process start all four hook slots are null, so a call to any of the four entry
  points made in the start state goes to that entry point's default implementation:
  exactly one direct call to it, with the call's arguments, and no call through a hook.
\<close>

theorem start_state_routes_to_default:
  "swift_task_enqueueGlobal_hook process_start = nullptr \<and>
   swift_task_enqueueGlobalWithDelay_hook process_start = nullptr \<and>
   swift_task_enqueueGlobalWithDeadline_hook process_start = nullptr \<and>
   swift_task_enqueueMainExecutor_hook process_start = nullptr \<and>
   hook_calls (swift_task_enqueueGlobal process_start job) = [] \<and>
   impl_calls (swift_task_enqueueGlobal process_start job) =
     [(Direct swift_task_enqueueGlobalImpl, [Ptr job])] \<and>
   hook_calls (swift_task_enqueueGlobalWithDelay process_start delay job) = [] \<and>
   impl_calls (swift_task_enqueueGlobalWithDelay process_start delay job) =
     [(Direct swift_task_enqueueGlobalWithDelayImpl, [Delay delay, Ptr job])] \<and>
   hook_calls (swift_task_enqueueGlobalWithDeadline process_start sec nsec tsec tnsec clock job) = [] \<and>
   impl_calls (swift_task_enqueueGlobalWithDeadline process_start sec nsec tsec tnsec clock job) =
     [(Direct swift_task_enqueueGlobalWithDeadlineImpl,
       [LL sec, LL nsec, LL tsec, LL tnsec, CInt clock, Ptr job])] \<and>
   hook_calls (swift_task_enqueueMainExecutor process_start job) = [] \<and>
   impl_calls (swift_task_enqueueMainExecutor process_start job) =
     [(Direct swift_task_enqueueMainExecutorImpl, [Ptr job])]"
proof -
  have slots:
    "swift_task_enqueueGlobal_hook process_start = nullptr"
    "swift_task_enqueueGlobalWithDelay_hook process_start = nullptr"
    "swift_task_enqueueGlobalWithDeadline_hook process_start = nullptr"
    "swift_task_enqueueMainExecutor_hook process_start = nullptr"
    by (simp_all add: process_start_def)
  show ?thesis
    by (simp add: slots routing_enqueueGlobal routing_enqueueGlobalWithDelay
        routing_enqueueGlobalWithDeadline routing_enqueueMainExecutor)
qed

section \<open>Arguments are forwarded as given\<close>

text \<open>
  An entry point receives the Job as a pointer, and the only use it makes of \<open>job\<close> is to
  place it in the argument list of a call. The first four lemmas say that every call of
  an entry point carries exactly one pointer, the Job it was given.
\<close>

lemma job_refs_enqueueGlobal:
  "map (ptr_args \<circ> snd) (swift_task_enqueueGlobal g job) =
     replicate (length (swift_task_enqueueGlobal g job)) [job]"
  by (simp add: swift_task_enqueueGlobal_def)

lemma job_refs_enqueueGlobalWithDelay:
  "map (ptr_args \<circ> snd) (swift_task_enqueueGlobalWithDelay g delay job) =
     replicate (length (swift_task_enqueueGlobalWithDelay g delay job)) [job]"
  by (simp add: swift_task_enqueueGlobalWithDelay_def)

lemma job_refs_enqueueGlobalWithDeadline:
  "map (ptr_args \<circ> snd) (swift_task_enqueueGlobalWithDeadline g sec nsec tsec tnsec clock job) =
     replicate (length (swift_task_enqueueGlobalWithDeadline g sec nsec tsec tnsec clock job)) [job]"
  by (simp add: swift_task_enqueueGlobalWithDeadline_def)

lemma job_refs_enqueueMainExecutor:
  "map (ptr_args \<circ> snd) (swift_task_enqueueMainExecutor g job) =
     replicate (length (swift_task_enqueueMainExecutor g job)) [job]"
  by (simp add: swift_task_enqueueMainExecutor_def)

lemma deadline_args_in_order:
  "map (take 6 \<circ> snd) (swift_task_enqueueGlobalWithDeadline g sec nsec tsec tnsec clock job) =
     [[LL sec, LL nsec, LL tsec, LL tnsec, CInt clock, Ptr job]]"
  by (simp add: swift_task_enqueueGlobalWithDeadline_def)

text \<open>Each entry point makes exactly one routed call, to the hook or to its own default
  implementation, and that call receives the Job and the other arguments.\<close>

lemma routed_enqueueGlobal:
  "routed_calls (swift_task_enqueueGlobal g job) =
     [if swift_task_enqueueGlobal_hook g \<noteq> nullptr
      then (Through (swift_task_enqueueGlobal_hook g),
            [Ptr job, FnPtr swift_task_enqueueGlobalImpl])
      else (Direct swift_task_enqueueGlobalImpl, [Ptr job])]"
  by (simp add: swift_task_enqueueGlobal_def routed_calls_def)

lemma routed_enqueueGlobalWithDelay:
  "routed_calls (swift_task_enqueueGlobalWithDelay g delay job) =
     [if swift_task_enqueueGlobalWithDelay_hook g \<noteq> nullptr
      then (Through (swift_task_enqueueGlobalWithDelay_hook g),
            [Delay delay, Ptr job, FnPtr swift_task_enqueueGlobalWithDelayImpl])
      else (Direct swift_task_enqueueGlobalWithDelayImpl, [Delay delay, Ptr job])]"
  by (simp add: swift_task_enqueueGlobalWithDelay_def routed_calls_def)

lemma routed_enqueueGlobalWithDeadline:
  "routed_calls (swift_task_enqueueGlobalWithDeadline g sec nsec tsec tnsec clock job) =
     [if swift_task_enqueueGlobalWithDeadline_hook g \<noteq> nullptr
      then (Through (swift_task_enqueueGlobalWithDeadline_hook g),
            [LL sec, LL nsec, LL tsec, LL tnsec, CInt clock, Ptr job,
             FnPtr swift_task_enqueueGlobalWithDeadlineImpl])
      else (Direct swift_task_enqueueGlobalWithDeadlineImpl,
            [LL sec, LL nsec, LL tsec, LL tnsec, CInt clock, Ptr job])]"
  by (simp add: swift_task_enqueueGlobalWithDeadline_def routed_calls_def)

lemma routed_enqueueMainExecutor:
  "routed_calls (swift_task_enqueueMainExecutor g job) =
     [if swift_task_enqueueMainExecutor_hook g \<noteq> nullptr
      then (Through (swift_task_enqueueMainExecutor_hook g),
            [Ptr job, FnPtr swift_task_enqueueMainExecutorImpl])
      else (Direct swift_task_enqueueMainExecutorImpl, [Ptr job])]"
  by (simp add: swift_task_enqueueMainExecutor_def routed_calls_def)

text \<open>
  Run on a memory, an entry point appends exactly its call sequence, which does not depend
  on the memory, and leaves the memory that its callees produce, one after the other: it
  adds no read and no write of its own.
\<close>

lemma run_enqueueGlobal:
  "swift_task_enqueueGlobal_run ext g job (m, cs) =
     (fold ext (swift_task_enqueueGlobal g job) m, cs @ swift_task_enqueueGlobal g job)"
  by (simp add: swift_task_enqueueGlobal_run_def swift_task_enqueueGlobal_def perform_def Let_def)

lemma run_enqueueGlobalWithDelay:
  "swift_task_enqueueGlobalWithDelay_run ext g delay job (m, cs) =
     (fold ext (swift_task_enqueueGlobalWithDelay g delay job) m,
      cs @ swift_task_enqueueGlobalWithDelay g delay job)"
  by (simp add: swift_task_enqueueGlobalWithDelay_run_def swift_task_enqueueGlobalWithDelay_def
      perform_def Let_def)

lemma run_enqueueGlobalWithDeadline:
  "swift_task_enqueueGlobalWithDeadline_run ext g sec nsec tsec tnsec clock job (m, cs) =
     (fold ext (swift_task_enqueueGlobalWithDeadline g sec nsec tsec tnsec clock job) m,
      cs @ swift_task_enqueueGlobalWithDeadline g sec nsec tsec tnsec clock job)"
  by (simp add: swift_task_enqueueGlobalWithDeadline_run_def
      swift_task_enqueueGlobalWithDeadline_def perform_def)

lemma run_enqueueMainExecutor:
  "swift_task_enqueueMainExecutor_run ext g job (m, cs) =
     (fold ext (swift_task_enqueueMainExecutor g job) m, cs @ swift_task_enqueueMainExecutor g job)"
  by (simp add: swift_task_enqueueMainExecutor_run_def swift_task_enqueueMainExecutor_def
      perform_def Let_def)

text \<open>So the contents at an address that no callee changes are the same afterwards.\<close>

lemma fold_keeps_contents:
  assumes "\<And>c m. ext c m a = m a"
  shows "fold ext cs m a = m a"
proof (induction cs arbitrary: m)
  case Nil
  show ?case by simp
next
  case (Cons c cs)
  have "fold ext (c # cs) m a = fold ext cs (ext c m) a"
    by simp
  also have "\<dots> = ext c m a"
    by (rule Cons.IH)
  also have "\<dots> = m a"
    by (rule assms)
  finally show ?case .
qed

lemma entry_points_keep_job_contents:
  assumes "\<And>c m. ext c m job = m job"
  shows "fst (swift_task_enqueueGlobal_run ext g job (m, cs)) job = m job"
    and "fst (swift_task_enqueueGlobalWithDelay_run ext g delay job (m, cs)) job = m job"
    and "fst (swift_task_enqueueGlobalWithDeadline_run ext g sec nsec tsec tnsec clock job (m, cs)) job
           = m job"
    and "fst (swift_task_enqueueMainExecutor_run ext g job (m, cs)) job = m job"
  using assms
  by (simp_all add: run_enqueueGlobal run_enqueueGlobalWithDelay run_enqueueGlobalWithDeadline
      run_enqueueMainExecutor fold_keeps_contents)

text \<open>
  C7. For each of the four entry points, every state of the hook slots, every behaviour
  \<open>ext\<close> of the functions defined elsewhere, every memory and all arguments:
  the entry point makes exactly one routed call, through the hook when the slot is non-null
  and to its own default implementation otherwise, and that call receives the Job pointer
  it was given, after the delay or deadline arguments and before the \<open>original\<close>;
  every call it makes carries exactly one pointer, that Job pointer;
  run on a memory, it appends exactly this call sequence, whatever the Jobs' contents are,
  and the memory afterwards is the one its callees produce in turn, so the entry point
  itself copies and changes nothing of the Job.
  The deadline entry point makes one call, and its first six arguments are
  \<open>sec, nsec, tsec, tnsec, clock, job\<close>, in this order and unchanged.
\<close>

theorem arguments_forwarded_unchanged:
  "routed_calls (swift_task_enqueueGlobal g job) =
     [if swift_task_enqueueGlobal_hook g \<noteq> nullptr
      then (Through (swift_task_enqueueGlobal_hook g),
            [Ptr job, FnPtr swift_task_enqueueGlobalImpl])
      else (Direct swift_task_enqueueGlobalImpl, [Ptr job])] \<and>
   routed_calls (swift_task_enqueueGlobalWithDelay g delay job) =
     [if swift_task_enqueueGlobalWithDelay_hook g \<noteq> nullptr
      then (Through (swift_task_enqueueGlobalWithDelay_hook g),
            [Delay delay, Ptr job, FnPtr swift_task_enqueueGlobalWithDelayImpl])
      else (Direct swift_task_enqueueGlobalWithDelayImpl, [Delay delay, Ptr job])] \<and>
   routed_calls (swift_task_enqueueGlobalWithDeadline g sec nsec tsec tnsec clock job) =
     [if swift_task_enqueueGlobalWithDeadline_hook g \<noteq> nullptr
      then (Through (swift_task_enqueueGlobalWithDeadline_hook g),
            [LL sec, LL nsec, LL tsec, LL tnsec, CInt clock, Ptr job,
             FnPtr swift_task_enqueueGlobalWithDeadlineImpl])
      else (Direct swift_task_enqueueGlobalWithDeadlineImpl,
            [LL sec, LL nsec, LL tsec, LL tnsec, CInt clock, Ptr job])] \<and>
   routed_calls (swift_task_enqueueMainExecutor g job) =
     [if swift_task_enqueueMainExecutor_hook g \<noteq> nullptr
      then (Through (swift_task_enqueueMainExecutor_hook g),
            [Ptr job, FnPtr swift_task_enqueueMainExecutorImpl])
      else (Direct swift_task_enqueueMainExecutorImpl, [Ptr job])] \<and>
   map (ptr_args \<circ> snd) (swift_task_enqueueGlobal g job) =
     replicate (length (swift_task_enqueueGlobal g job)) [job] \<and>
   map (ptr_args \<circ> snd) (swift_task_enqueueGlobalWithDelay g delay job) =
     replicate (length (swift_task_enqueueGlobalWithDelay g delay job)) [job] \<and>
   map (ptr_args \<circ> snd) (swift_task_enqueueGlobalWithDeadline g sec nsec tsec tnsec clock job) =
     replicate (length (swift_task_enqueueGlobalWithDeadline g sec nsec tsec tnsec clock job)) [job] \<and>
   map (ptr_args \<circ> snd) (swift_task_enqueueMainExecutor g job) =
     replicate (length (swift_task_enqueueMainExecutor g job)) [job] \<and>
   map (take 6 \<circ> snd) (swift_task_enqueueGlobalWithDeadline g sec nsec tsec tnsec clock job) =
     [[LL sec, LL nsec, LL tsec, LL tnsec, CInt clock, Ptr job]] \<and>
   swift_task_enqueueGlobal_run ext g job (m, cs) =
     (fold ext (swift_task_enqueueGlobal g job) m, cs @ swift_task_enqueueGlobal g job) \<and>
   swift_task_enqueueGlobalWithDelay_run ext g delay job (m, cs) =
     (fold ext (swift_task_enqueueGlobalWithDelay g delay job) m,
      cs @ swift_task_enqueueGlobalWithDelay g delay job) \<and>
   swift_task_enqueueGlobalWithDeadline_run ext g sec nsec tsec tnsec clock job (m, cs) =
     (fold ext (swift_task_enqueueGlobalWithDeadline g sec nsec tsec tnsec clock job) m,
      cs @ swift_task_enqueueGlobalWithDeadline g sec nsec tsec tnsec clock job) \<and>
   swift_task_enqueueMainExecutor_run ext g job (m, cs) =
     (fold ext (swift_task_enqueueMainExecutor g job) m, cs @ swift_task_enqueueMainExecutor g job)"
  by (intro conjI routed_enqueueGlobal routed_enqueueGlobalWithDelay
      routed_enqueueGlobalWithDeadline routed_enqueueMainExecutor
      job_refs_enqueueGlobal job_refs_enqueueGlobalWithDelay job_refs_enqueueGlobalWithDeadline
      job_refs_enqueueMainExecutor deadline_args_in_order
      run_enqueueGlobal run_enqueueGlobalWithDelay run_enqueueGlobalWithDeadline
      run_enqueueMainExecutor)

text \<open>
  The theorem at Job 64, where the memory holds 7: in the start state the default
  implementation receives the Job and, being the callee that adds 1, leaves 8 there; with
  the hook at 4096 installed the hook receives it and leaves 17; the delayed, deadline
  and main-context entry points, whose callees here change nothing, leave the 7.
\<close>

theorem arguments_forwarded_unchanged_witness:
  "routed_calls (swift_task_enqueueGlobal process_start 64) =
     [(Direct swift_task_enqueueGlobalImpl, [Ptr 64])] \<and>
   routed_calls (swift_task_enqueueGlobal two_hooks 64) =
     [(Through 4096, [Ptr 64, FnPtr swift_task_enqueueGlobalImpl])] \<and>
   swift_task_enqueueGlobal_run sample_ext process_start 64 ((\<lambda>a. 0)(64 := 7), []) =
     ((\<lambda>a. 0)(64 := 8),
      [(Direct tsan_release, [Ptr 64]), (Direct job_enqueue_global, [Ptr 64]),
       (Direct swift_task_enqueueGlobalImpl, [Ptr 64])]) \<and>
   fst (swift_task_enqueueGlobal_run sample_ext two_hooks 64 ((\<lambda>a. 0)(64 := 7), [])) 64 = 17 \<and>
   fst (swift_task_enqueueGlobalWithDelay_run sample_ext process_start 5 64
          ((\<lambda>a. 0)(64 := 7), [])) 64 = 7 \<and>
   swift_task_enqueueGlobalWithDeadline_run sample_ext process_start 1 2 3 4 0 64
          ((\<lambda>a. 0)(64 := 7), []) =
     ((\<lambda>a. 0)(64 := 7),
      [(Direct swift_task_enqueueGlobalWithDeadlineImpl,
        [LL 1, LL 2, LL 3, LL 4, CInt 0, Ptr 64])]) \<and>
   fst (swift_task_enqueueMainExecutor_run sample_ext process_start 64
          ((\<lambda>a. 0)(64 := 7), [])) 64 = 7"
proof -
  note at_start = arguments_forwarded_unchanged
    [of process_start 64 5 1 2 3 4 0 sample_ext "(\<lambda>a. 0)(64 := 7)" "[]"]
  note hooked = arguments_forwarded_unchanged
    [of two_hooks 64 5 1 2 3 4 0 sample_ext "(\<lambda>a. 0)(64 := 7)" "[]"]
  have start: "swift_task_enqueueGlobal process_start 64 =
      [(Direct tsan_release, [Ptr 64]), (Direct job_enqueue_global, [Ptr 64]),
       (Direct swift_task_enqueueGlobalImpl, [Ptr 64])]"
    "swift_task_enqueueGlobalWithDelay process_start 5 64 =
      [(Direct job_enqueue_global_with_delay, [Delay 5, Ptr 64]),
       (Direct swift_task_enqueueGlobalWithDelayImpl, [Delay 5, Ptr 64])]"
    "swift_task_enqueueGlobalWithDeadline process_start 1 2 3 4 0 64 =
      [(Direct swift_task_enqueueGlobalWithDeadlineImpl,
        [LL 1, LL 2, LL 3, LL 4, CInt 0, Ptr 64])]"
    "swift_task_enqueueMainExecutor process_start 64 =
      [(Direct job_enqueue_main_executor, [Ptr 64]),
       (Direct swift_task_enqueueMainExecutorImpl, [Ptr 64])]"
    by (simp_all add: swift_task_enqueueGlobal_def swift_task_enqueueGlobalWithDelay_def
        swift_task_enqueueGlobalWithDeadline_def swift_task_enqueueMainExecutor_def
        process_start_def)
  have hook: "swift_task_enqueueGlobal two_hooks 64 =
      [(Direct tsan_release, [Ptr 64]), (Direct job_enqueue_global, [Ptr 64]),
       (Through 4096, [Ptr 64, FnPtr swift_task_enqueueGlobalImpl])]"
    by (simp add: swift_task_enqueueGlobal_def two_hooks_def process_start_def)
  have slots: "swift_task_enqueueGlobal_hook process_start = nullptr"
    "swift_task_enqueueGlobal_hook two_hooks = 4096"
    by (simp_all add: two_hooks_def process_start_def)
  from at_start have
    "routed_calls (swift_task_enqueueGlobal process_start 64) =
       [(Direct swift_task_enqueueGlobalImpl, [Ptr 64])]"
    by (simp add: slots)
  moreover from hooked have
    "routed_calls (swift_task_enqueueGlobal two_hooks 64) =
       [(Through 4096, [Ptr 64, FnPtr swift_task_enqueueGlobalImpl])]"
    by (simp add: slots)
  moreover from at_start have
    "swift_task_enqueueGlobal_run sample_ext process_start 64 ((\<lambda>a. 0)(64 := 7), []) =
     ((\<lambda>a. 0)(64 := 8),
      [(Direct tsan_release, [Ptr 64]), (Direct job_enqueue_global, [Ptr 64]),
       (Direct swift_task_enqueueGlobalImpl, [Ptr 64])])"
    by (simp add: start)
  moreover from hooked have
    "fst (swift_task_enqueueGlobal_run sample_ext two_hooks 64 ((\<lambda>a. 0)(64 := 7), [])) 64 = 17"
    by (simp add: hook)
  moreover from at_start have
    "fst (swift_task_enqueueGlobalWithDelay_run sample_ext process_start 5 64
          ((\<lambda>a. 0)(64 := 7), [])) 64 = 7"
    by (simp add: start)
  moreover from at_start have
    "swift_task_enqueueGlobalWithDeadline_run sample_ext process_start 1 2 3 4 0 64
          ((\<lambda>a. 0)(64 := 7), []) =
     ((\<lambda>a. 0)(64 := 7),
      [(Direct swift_task_enqueueGlobalWithDeadlineImpl,
        [LL 1, LL 2, LL 3, LL 4, CInt 0, Ptr 64])])"
    by (simp add: start)
  moreover from at_start have
    "fst (swift_task_enqueueMainExecutor_run sample_ext process_start 64
          ((\<lambda>a. 0)(64 := 7), [])) 64 = 7"
    by (simp add: start)
  ultimately show ?thesis
    by (intro conjI)
qed

section \<open>Trace events\<close>

text \<open>
  The immediate, delayed and main-context entry points emit one trace event each, tagged
  by the function of the tracing sink that is called and carrying the Job, and the event
  comes before the routed call, which is the last call of the sequence.
\<close>

lemma trace_enqueueGlobal:
  "trace_events (swift_task_enqueueGlobal g job) = [(Direct job_enqueue_global, [Ptr job])]"
  "\<not> is_trace (last (swift_task_enqueueGlobal g job))"
  "trace_events (butlast (swift_task_enqueueGlobal g job)) =
     [(Direct job_enqueue_global, [Ptr job])]"
  by (simp_all add: swift_task_enqueueGlobal_def trace_events_def)

lemma trace_enqueueGlobalWithDelay:
  "trace_events (swift_task_enqueueGlobalWithDelay g delay job) =
     [(Direct job_enqueue_global_with_delay, [Delay delay, Ptr job])]"
  "\<not> is_trace (last (swift_task_enqueueGlobalWithDelay g delay job))"
  "trace_events (butlast (swift_task_enqueueGlobalWithDelay g delay job)) =
     [(Direct job_enqueue_global_with_delay, [Delay delay, Ptr job])]"
  by (simp_all add: swift_task_enqueueGlobalWithDelay_def trace_events_def)

lemma trace_enqueueMainExecutor:
  "trace_events (swift_task_enqueueMainExecutor g job) =
     [(Direct job_enqueue_main_executor, [Ptr job])]"
  "\<not> is_trace (last (swift_task_enqueueMainExecutor g job))"
  "trace_events (butlast (swift_task_enqueueMainExecutor g job)) =
     [(Direct job_enqueue_main_executor, [Ptr job])]"
  by (simp_all add: swift_task_enqueueMainExecutor_def trace_events_def)

text \<open>The deadline entry point makes its routed call and nothing else: no trace event.\<close>

lemma trace_enqueueGlobalWithDeadline:
  "trace_events (swift_task_enqueueGlobalWithDeadline g sec nsec tsec tnsec clock job) = []"
  "length (swift_task_enqueueGlobalWithDeadline g sec nsec tsec tnsec clock job) = 1"
  by (simp_all add: swift_task_enqueueGlobalWithDeadline_def trace_events_def)

text \<open>
  C2 (the code departs from it). The claim asks for exactly one trace event from every
  entry point, the deadline one included. Evaluated in the start state with Job 64 and the
  deadline arguments 1, 2, 3, 4 on clock 0: the deadline entry point's whole call sequence
  is the call to its default implementation, so it emits no trace event, while the three
  sibling entry points emit one each for the same Job.
\<close>

theorem deadline_emits_no_trace_event:
  "swift_task_enqueueGlobalWithDeadline process_start 1 2 3 4 0 64 =
     [(Direct swift_task_enqueueGlobalWithDeadlineImpl,
       [LL 1, LL 2, LL 3, LL 4, CInt 0, Ptr 64])] \<and>
   trace_events (swift_task_enqueueGlobalWithDeadline process_start 1 2 3 4 0 64) = [] \<and>
   trace_events (swift_task_enqueueGlobalWithDeadline two_hooks 1 2 3 4 0 64) = [] \<and>
   trace_events (swift_task_enqueueGlobal process_start 64) =
     [(Direct job_enqueue_global, [Ptr 64])] \<and>
   trace_events (swift_task_enqueueGlobalWithDelay process_start 5 64) =
     [(Direct job_enqueue_global_with_delay, [Delay 5, Ptr 64])] \<and>
   trace_events (swift_task_enqueueMainExecutor process_start 64) =
     [(Direct job_enqueue_main_executor, [Ptr 64])]"
proof -
  have whole: "swift_task_enqueueGlobalWithDeadline process_start 1 2 3 4 0 64 =
     [(Direct swift_task_enqueueGlobalWithDeadlineImpl,
       [LL 1, LL 2, LL 3, LL 4, CInt 0, Ptr 64])]"
    by (simp add: swift_task_enqueueGlobalWithDeadline_def process_start_def)
  have events:
    "trace_events (swift_task_enqueueGlobalWithDeadline process_start 1 2 3 4 0 64) = []"
    "trace_events (swift_task_enqueueGlobalWithDeadline two_hooks 1 2 3 4 0 64) = []"
    by (rule trace_enqueueGlobalWithDeadline)+
  have siblings:
    "trace_events (swift_task_enqueueGlobal process_start 64) =
       [(Direct job_enqueue_global, [Ptr 64])]"
    "trace_events (swift_task_enqueueGlobalWithDelay process_start 5 64) =
       [(Direct job_enqueue_global_with_delay, [Delay 5, Ptr 64])]"
    "trace_events (swift_task_enqueueMainExecutor process_start 64) =
       [(Direct job_enqueue_main_executor, [Ptr 64])]"
    by (rule trace_enqueueGlobal trace_enqueueGlobalWithDelay trace_enqueueMainExecutor)+
  from whole events siblings show ?thesis
    by (intro conjI)
qed

section \<open>The main-executor setter\<close>

text \<open>
  C10. For all arguments, the call sequence of \<open>swift_concurrency_setMainActorExecutor\<close>
  holds exactly one call to \<open>swift_concurrency_setMainActorExecutorImpl\<close>, with the three
  arguments unchanged and in order; it holds no call through a function pointer (no hook
  is consulted: the function has no slot and reads no global); and it holds exactly one
  write to \<open>stderr\<close>, made first, whatever the arguments are.
\<close>

theorem setMainActorExecutor_calls_impl_once:
  "calls_to swift_concurrency_setMainActorExecutorImpl
     (swift_concurrency_setMainActorExecutor executor selfType wtable) =
     [(Direct swift_concurrency_setMainActorExecutorImpl,
       [Ptr executor, Ptr selfType, Ptr wtable])] \<and>
   hook_calls (swift_concurrency_setMainActorExecutor executor selfType wtable) = [] \<and>
   length (filter is_stderr_write
     (swift_concurrency_setMainActorExecutor executor selfType wtable)) = 1 \<and>
   is_stderr_write (hd (swift_concurrency_setMainActorExecutor executor selfType wtable))"
proof (intro conjI)
  show "calls_to swift_concurrency_setMainActorExecutorImpl
     (swift_concurrency_setMainActorExecutor executor selfType wtable) =
     [(Direct swift_concurrency_setMainActorExecutorImpl,
       [Ptr executor, Ptr selfType, Ptr wtable])]"
    by (simp add: swift_concurrency_setMainActorExecutor_def calls_to_def)
next
  show "hook_calls (swift_concurrency_setMainActorExecutor executor selfType wtable) = []"
    by (simp add: swift_concurrency_setMainActorExecutor_def hook_calls_def)
next
  show "length (filter is_stderr_write
     (swift_concurrency_setMainActorExecutor executor selfType wtable)) = 1"
    by (simp add: swift_concurrency_setMainActorExecutor_def)
next
  show "is_stderr_write (hd (swift_concurrency_setMainActorExecutor executor selfType wtable))"
    by (simp add: swift_concurrency_setMainActorExecutor_def)
qed

section \<open>The main-executor queries\<close>

lemma isMainExecutor_dispatch:
  "SWIFT_CONCURRENCY_ENABLE_DISPATCH cfg \<Longrightarrow>
     isMainExecutor cfg ex r = (Identity r = dispatch_main_q ex)"
  by (simp add: isMainExecutor_def)

lemma isMainExecutor_non_dispatch:
  "\<not> SWIFT_CONCURRENCY_ENABLE_DISPATCH cfg \<Longrightarrow> isMainExecutor cfg ex r = isGeneric ex r"
  by (simp add: isMainExecutor_def)


text \<open>
  C3 (the code departs from it). In a dispatch build, install the override with identity
  20480 and capabilities 28672: the setter hands exactly these to the backend, and the
  backend's installation puts them in the two override cells. \<open>isMainExecutor\<close> never reads
  the cells: it still answers false for the reference built from the new identity, and
  true for the reference built from the dispatch main queue, which is also what
  \<open>swift_task_getMainExecutor\<close> still returns.
\<close>

theorem override_not_consulted:
  "calls_to swift_concurrency_setMainActorExecutorImpl
     (swift_concurrency_setMainActorExecutor 20480 24576 28672) =
     [(Direct swift_concurrency_setMainActorExecutorImpl,
       [Ptr 20480, Ptr 24576, Ptr 28672])] \<and>
   mainExecutorIdentityOverride (setMainExecutorOverride 20480 28672 process_start) = 20480 \<and>
   mainExecutorImplementationOverride (setMainExecutorOverride 20480 28672 process_start) = 28672 \<and>
   isMainExecutor dispatch_build sample_externs (forOrdinary 20480 28672) = False \<and>
   isMainExecutor dispatch_build sample_externs
     (forOrdinary (dispatch_main_q sample_externs)
        (DispatchQueueSerialExecutorWitnessTable sample_externs)) = True \<and>
   swift_task_getMainExecutor dispatch_build sample_externs = forOrdinary 4096 8192"
proof -
  have handed: "calls_to swift_concurrency_setMainActorExecutorImpl
     (swift_concurrency_setMainActorExecutor 20480 24576 28672) =
     [(Direct swift_concurrency_setMainActorExecutorImpl,
       [Ptr 20480, Ptr 24576, Ptr 28672])]"
    by (simp add: swift_concurrency_setMainActorExecutor_def calls_to_def)
  have cells:
    "mainExecutorIdentityOverride (setMainExecutorOverride 20480 28672 process_start) = 20480"
    "mainExecutorImplementationOverride (setMainExecutorOverride 20480 28672 process_start) = 28672"
    by (simp_all add: setMainExecutorOverride_def)
  have dispatch: "SWIFT_CONCURRENCY_ENABLE_DISPATCH dispatch_build"
    by (simp add: dispatch_build_def)
  have new_identity: "isMainExecutor dispatch_build sample_externs (forOrdinary 20480 28672) = False"
    by (simp add: isMainExecutor_dispatch [OF dispatch] forOrdinary_def sample_externs_def)
  have old_identity: "isMainExecutor dispatch_build sample_externs
     (forOrdinary (dispatch_main_q sample_externs)
        (DispatchQueueSerialExecutorWitnessTable sample_externs)) = True"
    by (simp add: isMainExecutor_dispatch [OF dispatch] forOrdinary_def)
  have getter: "swift_task_getMainExecutor dispatch_build sample_externs = forOrdinary 4096 8192"
    by (simp add: swift_task_getMainExecutor_def dispatch sample_externs_def)
  from handed cells new_identity old_identity getter show ?thesis
    by (intro conjI)
qed





text \<open>
  C9. In a build without dispatch support \<open>isMainExecutor\<close> is the \<open>isGeneric\<close> test: it
  gives the same answer as \<open>isGeneric\<close> on every reference, so any two references that are
  generic are both classified as the main executor, whether or not they are the reference
  that \<open>swift_task_getMainExecutor\<close> returns.
\<close>

theorem non_dispatch_isMainExecutor_is_isGeneric:
  assumes "\<not> SWIFT_CONCURRENCY_ENABLE_DISPATCH cfg"
    and "isGeneric ex r1" and "isGeneric ex r2"
  shows "(\<forall>r. isMainExecutor cfg ex r = isGeneric ex r) \<and>
         isMainExecutor cfg ex r1 \<and> isMainExecutor cfg ex r2"
proof -
  have reduces: "isMainExecutor cfg ex r = isGeneric ex r" for r
    using assms(1) by (rule isMainExecutor_non_dispatch)
  from assms(2,3) have "isMainExecutor cfg ex r1" and "isMainExecutor cfg ex r2"
    by (simp_all add: reduces)
  with reduces show ?thesis
    by blast
qed

theorem non_dispatch_isMainExecutor_is_isGeneric_witness:
  "\<not> SWIFT_CONCURRENCY_ENABLE_DISPATCH non_dispatch_build \<and>
   isGeneric sample_externs \<lparr> Identity = nullptr, Implementation = 0 \<rparr> \<and>
   isGeneric sample_externs \<lparr> Identity = nullptr, Implementation = 7 \<rparr> \<and>
   \<lparr> Identity = nullptr, Implementation = 7 \<rparr> \<noteq>
     swift_task_getMainExecutor non_dispatch_build sample_externs \<and>
   isMainExecutor non_dispatch_build sample_externs \<lparr> Identity = nullptr, Implementation = 0 \<rparr> \<and>
   isMainExecutor non_dispatch_build sample_externs \<lparr> Identity = nullptr, Implementation = 7 \<rparr> \<and>
   isMainExecutor non_dispatch_build sample_externs (forOrdinary 4096 8192) = False"
proof -
  have nd: "\<not> SWIFT_CONCURRENCY_ENABLE_DISPATCH non_dispatch_build"
    by (simp add: non_dispatch_build_def)
  have g1: "isGeneric sample_externs \<lparr> Identity = nullptr, Implementation = 0 \<rparr>"
    and g2: "isGeneric sample_externs \<lparr> Identity = nullptr, Implementation = 7 \<rparr>"
    by (simp_all add: sample_externs_def)
  have other: "\<lparr> Identity = nullptr, Implementation = 7 \<rparr> \<noteq>
     swift_task_getMainExecutor non_dispatch_build sample_externs"
    by (simp add: swift_task_getMainExecutor_def nd sample_externs_def)
  note all = non_dispatch_isMainExecutor_is_isGeneric [OF nd g1 g2]
  from all have both:
    "isMainExecutor non_dispatch_build sample_externs \<lparr> Identity = nullptr, Implementation = 0 \<rparr>"
    "isMainExecutor non_dispatch_build sample_externs \<lparr> Identity = nullptr, Implementation = 7 \<rparr>"
    by blast+
  from all have "isMainExecutor non_dispatch_build sample_externs (forOrdinary 4096 8192) =
     isGeneric sample_externs (forOrdinary 4096 8192)"
    by blast
  also have "\<dots> = False"
    by (simp add: sample_externs_def forOrdinary_def)
  finally have ordinary:
    "isMainExecutor non_dispatch_build sample_externs (forOrdinary 4096 8192) = False" .
  from nd g1 g2 other both ordinary show ?thesis
    by (intro conjI)
qed

end
